theory Spec2Isabelle
  imports Main
begin

section \<open>The tokenizer wrapper of \<^verbatim>\<open>src/llama/tokenizer.py\<close>\<close>

text \<open>
  The class \<^verbatim>\<open>Tokenizer\<close> wraps a \<^verbatim>\<open>SentencePieceProcessor\<close>. The processor
  belongs to a third-party library, so it enters the model as a record of the eight
  methods the wrapper calls. Everything the wrapper itself does (the checks, the
  attribute reads and writes, the \<^verbatim>\<open>try\<close>/\<^verbatim>\<open>except\<close>, the list comprehension, the
  BOS/EOS handling) is written out.
\<close>

subsection \<open>Python values and exceptions\<close>

text \<open>
  The argument \<^verbatim>\<open>s\<close> of \<^verbatim>\<open>encode\<close> is only annotated as \<^verbatim>\<open>str\<close>; a caller can
  pass any object, and the \<^verbatim>\<open>isinstance\<close> check of line 53 is what decides.
\<close>

datatype py_value =
    PyStr string
  | PyBytes "nat list"
  | PyInt int
  | PyBool bool
  | PyNone
  | PyList "py_value list"

fun isinstance_str :: "py_value \<Rightarrow> bool" where
  "isinstance_str (PyStr _) = True"
| "isinstance_str _ = False"

text \<open>
  The exception classes the wrapper raises itself, the class Python raises for a
  missing attribute, and two open families for what the library may raise:
  \<open>OtherException\<close> is any further subclass of \<^verbatim>\<open>Exception\<close> (named by its class),
  \<open>NonException\<close> is a \<^verbatim>\<open>BaseException\<close> that is not an \<^verbatim>\<open>Exception\<close>
  (\<^verbatim>\<open>KeyboardInterrupt\<close>, \<^verbatim>\<open>SystemExit\<close>), which \<^verbatim>\<open>except Exception\<close> lets through.
\<close>

datatype exc_class =
    FileNotFoundError
  | AssertionError
  | ValueError
  | AttributeError
  | OtherException string
  | NonException string

text \<open>
  An exception object: its class, the text \<^verbatim>\<open>str(e)\<close> gives, and \<^verbatim>\<open>__context__\<close>,
  which Python sets to the exception being handled when a \<^verbatim>\<open>raise\<close> runs inside an
  \<^verbatim>\<open>except\<close> block.
\<close>

datatype py_exception =
  PyExc (exc_class: exc_class) (message: string) (exc_context: "py_exception option")

fun is_Exception :: "py_exception \<Rightarrow> bool" where
  "is_Exception (PyExc (NonException _) _ _) = False"
| "is_Exception _ = True"

subsection \<open>The model handle and the environment\<close>

text \<open>
  The interface of \<^verbatim>\<open>SentencePieceProcessor\<close> that the wrapper uses. The handle is
  opaque: nothing is assumed about the numbers it reports. A method is a function of
  its arguments: the wrapper passes no sampling option, and the loaded model does not
  change. The two procedures return the value or the exception they raise; the
  library's \<^verbatim>\<open>encode\<close> takes any object, and it is the wrapper that restricts it.
\<close>

record sp_processor =
  sp_vocab_size :: int
  sp_get_piece_size :: int
  sp_bos_id :: int
  sp_eos_id :: int
  sp_pad_id :: int
  sp_unk_id :: int
  sp_encode :: "py_value \<Rightarrow> py_exception + int list"
  sp_decode :: "int list \<Rightarrow> py_exception + string"

text \<open>
  What construction reads from outside: \<^verbatim>\<open>os.path.isfile\<close> and the library's loader
  \<^verbatim>\<open>SentencePieceProcessor(model_file=...)\<close>, which may itself fail on a bad file.
\<close>

record env =
  isfile :: "string \<Rightarrow> bool"
  load_model :: "string \<Rightarrow> py_exception + sp_processor"

subsection \<open>The instance and the effects\<close>

text \<open>
  The attributes of a \<^verbatim>\<open>Tokenizer\<close> instance. An attribute that has not been
  assigned is \<open>None\<close>; reading it raises \<^verbatim>\<open>AttributeError\<close>.
\<close>

record tokenizer =
  sp_model :: "sp_processor option"
  n_words :: "int option"
  bos_id :: "int option"
  eos_id :: "int option"
  pad_id :: "int option"
  unk_id :: "int option"

text \<open>What a call does besides returning: the log records and the calls into the library.\<close>

datatype event =
    LoadModel string
  | LogReloaded string
  | LogWords int int int
  | SpEncode py_value
  | SpDecode "int list"

text \<open>
  A method body takes the instance and gives back its outcome (the exception raised or
  the value returned), the instance as the body leaves it, and the events in order.
\<close>

type_synonym 'a prog = "tokenizer \<Rightarrow> (py_exception + 'a) \<times> tokenizer \<times> event list"

definition ret :: "'a \<Rightarrow> 'a prog" where
  "ret v = (\<lambda>tk. (Inr v, tk, []))"

definition raise :: "py_exception \<Rightarrow> 'a prog" where
  "raise e = (\<lambda>tk. (Inl e, tk, []))"

definition bind :: "'a prog \<Rightarrow> ('a \<Rightarrow> 'b prog) \<Rightarrow> 'b prog" where
  "bind m f = (\<lambda>tk.
     case m tk of
       (Inl e, tk1, ev1) \<Rightarrow> (Inl e, tk1, ev1)
     | (Inr v, tk1, ev1) \<Rightarrow> (case f v tk1 of (r, tk2, ev2) \<Rightarrow> (r, tk2, ev1 @ ev2)))"

definition emit :: "event \<Rightarrow> unit prog" where
  "emit ev = (\<lambda>tk. (Inr (), tk, [ev]))"

text \<open>A call into the library: the call is recorded, then its outcome is the library's.\<close>

definition call :: "event \<Rightarrow> (py_exception + 'a) \<Rightarrow> 'a prog" where
  "call ev r = (\<lambda>tk. (r, tk, [ev]))"

definition quoted :: "string \<Rightarrow> string" where
  "quoted x = [CHR 0x27] @ x @ [CHR 0x27]"

definition no_attribute :: "string \<Rightarrow> py_exception" where
  "no_attribute name =
     PyExc AttributeError
       (quoted ''Tokenizer'' @ '' object has no attribute '' @ quoted name) None"

definition getattr :: "string \<Rightarrow> (tokenizer \<Rightarrow> 'a option) \<Rightarrow> 'a prog" where
  "getattr name field = (\<lambda>tk.
     case field tk of
       None \<Rightarrow> (Inl (no_attribute name), tk, [])
     | Some v \<Rightarrow> (Inr v, tk, []))"

definition setattr :: "(tokenizer \<Rightarrow> tokenizer) \<Rightarrow> unit prog" where
  "setattr upd = (\<lambda>tk. (Inr (), upd tk, []))"

text \<open>
  \<^verbatim>\<open>try: body except Exception as e: handler\<close>. Only instances of \<^verbatim>\<open>Exception\<close> are
  caught.
\<close>

definition try_except_Exception :: "'a prog \<Rightarrow> (py_exception \<Rightarrow> 'a prog) \<Rightarrow> 'a prog" where
  "try_except_Exception body handler = (\<lambda>tk.
     case body tk of
       (Inr v, tk1, ev1) \<Rightarrow> (Inr v, tk1, ev1)
     | (Inl e, tk1, ev1) \<Rightarrow>
         if is_Exception e
         then (case handler e tk1 of (r, tk2, ev2) \<Rightarrow> (r, tk2, ev1 @ ev2))
         else (Inl e, tk1, ev1))"

definition py_assert :: "bool \<Rightarrow> string \<Rightarrow> unit prog" where
  "py_assert c msg = (if c then ret () else raise (PyExc AssertionError msg None))"

subsection \<open>Construction (lines 16 to 39)\<close>

definition init :: "env \<Rightarrow> string option \<Rightarrow> unit prog" where
  "init env model_path =
    (case model_path of
       None \<Rightarrow> ret ()
     | Some p \<Rightarrow>
         if \<not> isfile env p
         then raise (PyExc FileNotFoundError (''Model file not found: '' @ p) None)
         else
           bind (call (LoadModel p) (load_model env p)) (\<lambda>m.
           bind (setattr (\<lambda>tk. tk\<lparr>sp_model := Some m\<rparr>)) (\<lambda>_.
           bind (emit (LogReloaded p)) (\<lambda>_.
           bind (getattr ''sp_model'' sp_model) (\<lambda>m1.
           bind (setattr (\<lambda>tk. tk\<lparr>n_words := Some (sp_vocab_size m1)\<rparr>)) (\<lambda>_.
           bind (getattr ''sp_model'' sp_model) (\<lambda>m2.
           bind (setattr (\<lambda>tk. tk\<lparr>bos_id := Some (sp_bos_id m2)\<rparr>)) (\<lambda>_.
           bind (getattr ''sp_model'' sp_model) (\<lambda>m3.
           bind (setattr (\<lambda>tk. tk\<lparr>eos_id := Some (sp_eos_id m3)\<rparr>)) (\<lambda>_.
           bind (getattr ''sp_model'' sp_model) (\<lambda>m4.
           bind (setattr (\<lambda>tk. tk\<lparr>pad_id := Some (sp_pad_id m4)\<rparr>)) (\<lambda>_.
           bind (getattr ''sp_model'' sp_model) (\<lambda>m5.
           bind (setattr (\<lambda>tk. tk\<lparr>unk_id := Some (sp_unk_id m5)\<rparr>)) (\<lambda>_.
           bind (getattr ''n_words'' n_words) (\<lambda>n.
           bind (getattr ''bos_id'' bos_id) (\<lambda>b.
           bind (getattr ''eos_id'' eos_id) (\<lambda>e.
           bind (emit (LogWords n b e)) (\<lambda>_.
           bind (getattr ''sp_model'' sp_model) (\<lambda>m6.
           py_assert (sp_vocab_size m6 = sp_get_piece_size m6) [])))))))))))))))))))"

text \<open>A new object has no attributes.\<close>

definition new_instance :: tokenizer where
  "new_instance =
     \<lparr>sp_model = None, n_words = None, bos_id = None, eos_id = None,
      pad_id = None, unk_id = None\<rparr>"

text \<open>
  The expression \<^verbatim>\<open>Tokenizer(model_path)\<close>: a new object is made, \<^verbatim>\<open>__init__\<close> runs
  on it, and the caller receives the object only if \<^verbatim>\<open>__init__\<close> returns.
\<close>

definition Tokenizer :: "env \<Rightarrow> string option \<Rightarrow> (py_exception + tokenizer) \<times> event list" where
  "Tokenizer env model_path =
     (case init env model_path new_instance of
        (Inl e, tk, evs) \<Rightarrow> (Inl e, evs)
      | (Inr _, tk, evs) \<Rightarrow> (Inr tk, evs))"

subsection \<open>Encoding (lines 41 to 66)\<close>

text \<open>\<^verbatim>\<open>token_id in range(n)\<close> for an integer \<^verbatim>\<open>token_id\<close>.\<close>

definition in_range :: "int \<Rightarrow> int \<Rightarrow> bool" where
  "in_range token_id n \<longleftrightarrow> 0 \<le> token_id \<and> token_id < n"

text \<open>
  The list comprehension of line 60. For each element it reads \<^verbatim>\<open>self.n_words\<close>,
  and \<^verbatim>\<open>self.unk_id\<close> only when the element is out of range.
\<close>

fun handle_unknown_tokens :: "int list \<Rightarrow> int list prog" where
  "handle_unknown_tokens [] = ret []"
| "handle_unknown_tokens (token_id # t) =
     bind (getattr ''n_words'' n_words) (\<lambda>n.
     bind (if in_range token_id n then ret token_id else getattr ''unk_id'' unk_id) (\<lambda>x.
     bind (handle_unknown_tokens t) (\<lambda>xs.
     ret (x # xs))))"

text \<open>
  The \<^verbatim>\<open>try\<close> of lines 54 to 57 covers the read of \<^verbatim>\<open>self.sp_model\<close> as well as the
  call. The local \<^verbatim>\<open>t\<close> is rebound at each step.
\<close>

definition encode :: "py_value \<Rightarrow> bool \<Rightarrow> bool \<Rightarrow> int list prog" where
  "encode s bos eos =
     bind (py_assert (isinstance_str s) ''Input 's' must be a string'') (\<lambda>_.
     bind (try_except_Exception
             (bind (getattr ''sp_model'' sp_model) (\<lambda>m.
              call (SpEncode s) (sp_encode m s)))
             (\<lambda>e. raise (PyExc ValueError
                            (''Error during tokenization: '' @ message e) (Some e)))) (\<lambda>t.
     bind (handle_unknown_tokens t) (\<lambda>t.
     bind (if bos then bind (getattr ''bos_id'' bos_id) (\<lambda>b. ret ([b] @ t)) else ret t) (\<lambda>t.
     bind (if eos then bind (getattr ''eos_id'' eos_id) (\<lambda>e. ret (t @ [e])) else ret t) (\<lambda>t.
     ret t)))))"

subsection \<open>Decoding (lines 68 to 78)\<close>

definition decode :: "int list \<Rightarrow> string prog" where
  "decode t =
     bind (getattr ''sp_model'' sp_model) (\<lambda>m.
     call (SpDecode t) (sp_decode m t))"

subsection \<open>Stub models\<close>

text \<open>
  Concrete model handles on which the definitions are run. \<open>stub_model\<close> is the
  scenario of the specification: vocabulary size 100, BOS 1, EOS 2, UNK 0, and
  \<^verbatim>\<open>"hi"\<close> segmented into 45, 46. On \<^verbatim>\<open>"h?"\<close> it produces the raw ID 100, one
  past its vocabulary, and on \<^verbatim>\<open>"!"\<close> it raises.
\<close>

definition stub_model :: sp_processor where
  "stub_model =
     \<lparr>sp_vocab_size = 100, sp_get_piece_size = 100, sp_bos_id = 1, sp_eos_id = 2,
      sp_pad_id = - 1, sp_unk_id = 0,
      sp_encode = (\<lambda>s.
        if s = PyStr ''hi'' then Inr [45, 46]
        else if s = PyStr ''h?'' then Inr [45, 100]
        else if s = PyStr ''!'' then Inl (PyExc (OtherException ''RuntimeError'') ''unsupported input'' None)
        else Inr []),
      sp_decode = (\<lambda>t.
        if t = [45, 46] then Inr ''hi''
        else if t = [] then Inr []
        else Inl (PyExc (OtherException ''IndexError'') ''piece id is out of range.'' None))\<rparr>"

text \<open>
  The same model with its three reserved IDs reported as \<open>- 1\<close>, the value
  SentencePiece reports for a reserved ID that the model has disabled.
\<close>

definition disabled_ids_model :: sp_processor where
  "disabled_ids_model = stub_model\<lparr>sp_bos_id := - 1, sp_eos_id := - 1, sp_unk_id := - 1\<rparr>"

text \<open>A model whose encoding procedure raises the exception of a missing attribute.\<close>

definition failing_model :: sp_processor where
  "failing_model = stub_model\<lparr>sp_encode := (\<lambda>s. Inl (no_attribute ''sp_model''))\<rparr>"

text \<open>A file system with one file, \<^verbatim>\<open>tokenizer.model\<close>, which loads as the given model.\<close>

definition stub_env :: "sp_processor \<Rightarrow> env" where
  "stub_env m = \<lparr>isfile = (\<lambda>p. p = ''tokenizer.model''), load_model = (\<lambda>p. Inr m)\<rparr>"

text \<open>A model whose vocabulary size and piece count disagree.\<close>

definition mismatched_model :: sp_processor where
  "mismatched_model = stub_model\<lparr>sp_get_piece_size := 99\<rparr>"

text \<open>
  The instance with the six attributes recorded from a model \<open>m\<close>, for stating results
  on concrete instances; \<open>stub_Tokenizer\<close> below shows that construction returns it.
\<close>

definition constructed :: "sp_processor \<Rightarrow> tokenizer" where
  "constructed m =
     \<lparr>sp_model = Some m, n_words = Some (sp_vocab_size m),
      bos_id = Some (sp_bos_id m), eos_id = Some (sp_eos_id m),
      pad_id = Some (sp_pad_id m), unk_id = Some (sp_unk_id m)\<rparr>"

section \<open>Properties\<close>

subsection \<open>What the method bodies compute\<close>

lemma init_Some:
  "init env (Some p) tk =
     (if \<not> isfile env p
      then (Inl (PyExc FileNotFoundError (''Model file not found: '' @ p) None), tk, [])
      else case load_model env p of
             Inl e \<Rightarrow> (Inl e, tk, [LoadModel p])
           | Inr m \<Rightarrow>
               (if sp_vocab_size m = sp_get_piece_size m then Inr ()
                else Inl (PyExc AssertionError [] None),
                tk\<lparr>sp_model := Some m, n_words := Some (sp_vocab_size m),
                   bos_id := Some (sp_bos_id m), eos_id := Some (sp_eos_id m),
                   pad_id := Some (sp_pad_id m), unk_id := Some (sp_unk_id m)\<rparr>,
                [LoadModel p, LogReloaded p,
                 LogWords (sp_vocab_size m) (sp_bos_id m) (sp_eos_id m)]))"
  by (simp add: init_def raise_def bind_def call_def setattr_def emit_def
        getattr_def py_assert_def ret_def split: sum.splits)

lemma Tokenizer_Some:
  "fst (Tokenizer env (Some p)) =
     (if \<not> isfile env p
      then Inl (PyExc FileNotFoundError (''Model file not found: '' @ p) None)
      else case load_model env p of
             Inl e \<Rightarrow> Inl e
           | Inr m \<Rightarrow>
               if sp_vocab_size m = sp_get_piece_size m
               then Inr \<lparr>sp_model = Some m, n_words = Some (sp_vocab_size m),
                         bos_id = Some (sp_bos_id m), eos_id = Some (sp_eos_id m),
                         pad_id = Some (sp_pad_id m), unk_id = Some (sp_unk_id m)\<rparr>
               else Inl (PyExc AssertionError [] None))"
  by (simp add: Tokenizer_def init_Some new_instance_def split: sum.splits)

lemma Tokenizer_None: "Tokenizer env None = (Inr new_instance, [])"
  by (simp add: Tokenizer_def init_def ret_def)

text \<open>The instance a successful construction from a path returns.\<close>

lemma Tokenizer_ready:
  assumes "fst (Tokenizer env (Some p)) = Inr tk" and "load_model env p = Inr m"
  shows "tk = \<lparr>sp_model = Some m, n_words = Some (sp_vocab_size m),
                bos_id = Some (sp_bos_id m), eos_id = Some (sp_eos_id m),
                pad_id = Some (sp_pad_id m), unk_id = Some (sp_unk_id m)\<rparr>"
    and "isfile env p" and "sp_vocab_size m = sp_get_piece_size m"
  using assms by (auto simp: Tokenizer_Some split: if_splits)

lemma handle_unknown_tokens_ready:
  assumes "n_words tk = Some n" and "unk_id tk = Some u"
  shows "handle_unknown_tokens t tk =
           (Inr (map (\<lambda>token_id. if in_range token_id n then token_id else u) t), tk, [])"
  using assms
  by (induction t) (simp_all add: bind_def getattr_def ret_def)

lemma encode_ready:
  assumes "sp_model tk = Some m" and "n_words tk = Some n" and "unk_id tk = Some u"
    and "bos_id tk = Some b" and "eos_id tk = Some e"
  shows "encode (PyStr s) bos eos tk =
    (case sp_encode m (PyStr s) of
       Inl x \<Rightarrow>
         (Inl (if is_Exception x
               then PyExc ValueError (''Error during tokenization: '' @ message x) (Some x)
               else x), tk, [SpEncode (PyStr s)])
     | Inr raw \<Rightarrow>
         (Inr ((if bos then [b] else []) @
               map (\<lambda>token_id. if in_range token_id n then token_id else u) raw @
               (if eos then [e] else [])), tk, [SpEncode (PyStr s)]))"
  using assms
  by (simp add: encode_def py_assert_def bind_def try_except_Exception_def getattr_def
        call_def raise_def ret_def handle_unknown_tokens_ready split: sum.splits)

lemma encode_constructed:
  assumes "fst (Tokenizer env (Some p)) = Inr tk" and "load_model env p = Inr m"
  shows "encode (PyStr s) bos eos tk =
    (case sp_encode m (PyStr s) of
       Inl x \<Rightarrow>
         (Inl (if is_Exception x
               then PyExc ValueError (''Error during tokenization: '' @ message x) (Some x)
               else x), tk, [SpEncode (PyStr s)])
     | Inr raw \<Rightarrow>
         (Inr ((if bos then [sp_bos_id m] else []) @
               map (\<lambda>token_id. if in_range token_id (sp_vocab_size m) then token_id
                                else sp_unk_id m) raw @
               (if eos then [sp_eos_id m] else [])), tk, [SpEncode (PyStr s)]))"
proof -
  have tk: "tk = \<lparr>sp_model = Some m, n_words = Some (sp_vocab_size m),
                   bos_id = Some (sp_bos_id m), eos_id = Some (sp_eos_id m),
                   pad_id = Some (sp_pad_id m), unk_id = Some (sp_unk_id m)\<rparr>"
    using assms by (rule Tokenizer_ready)
  show ?thesis
    by (rule encode_ready) (simp_all add: tk)
qed

lemma encode_not_str:
  "\<not> isinstance_str v \<Longrightarrow>
   encode v bos eos tk = (Inl (PyExc AssertionError ''Input 's' must be a string'' None), tk, [])"
  by (simp add: encode_def py_assert_def bind_def raise_def)

lemma encode_new_instance:
  "encode (PyStr s) bos eos new_instance =
     (Inl (PyExc ValueError
             (''Error during tokenization: '' @ message (no_attribute ''sp_model''))
             (Some (no_attribute ''sp_model''))), new_instance, [])"
  by (simp add: encode_def py_assert_def bind_def ret_def try_except_Exception_def
        getattr_def raise_def new_instance_def no_attribute_def)

lemma decode_apply:
  "decode t tk =
     (case sp_model tk of
        None \<Rightarrow> (Inl (no_attribute ''sp_model''), tk, [])
      | Some m \<Rightarrow> (sp_decode m t, tk, [SpDecode t]))"
  by (simp add: decode_def bind_def getattr_def call_def split: option.splits sum.splits)

lemma context_neq: "PyExc c msg (Some e) \<noteq> e"
proof
  assume "PyExc c msg (Some e) = e"
  then have "size (PyExc c msg (Some e)) = size e" by simp
  then show False by simp
qed

subsection \<open>The stub models\<close>

lemma stub_model_sel:
  "sp_vocab_size stub_model = 100" "sp_get_piece_size stub_model = 100"
  "sp_bos_id stub_model = 1" "sp_eos_id stub_model = 2"
  "sp_pad_id stub_model = - 1" "sp_unk_id stub_model = 0"
  "sp_encode stub_model (PyStr ''hi'') = Inr [45, 46]"
  "sp_encode stub_model (PyStr ''h?'') = Inr [45, 100]"
  "sp_encode stub_model (PyStr ''!'')
     = Inl (PyExc (OtherException ''RuntimeError'') ''unsupported input'' None)"
  "sp_decode stub_model [45, 46] = Inr ''hi''"
  "sp_decode stub_model [100]
     = Inl (PyExc (OtherException ''IndexError'') ''piece id is out of range.'' None)"
  by (simp_all add: stub_model_def)

lemma disabled_ids_model_sel:
  "sp_vocab_size disabled_ids_model = 100" "sp_get_piece_size disabled_ids_model = 100"
  "sp_bos_id disabled_ids_model = - 1" "sp_eos_id disabled_ids_model = - 1"
  "sp_unk_id disabled_ids_model = - 1"
  "sp_encode disabled_ids_model (PyStr ''hi'') = Inr [45, 46]"
  "sp_encode disabled_ids_model (PyStr ''h?'') = Inr [45, 100]"
  by (simp_all add: disabled_ids_model_def stub_model_def)

lemma failing_model_sel:
  "sp_vocab_size failing_model = 100" "sp_get_piece_size failing_model = 100"
  "sp_encode failing_model s = Inl (no_attribute ''sp_model'')"
  by (simp_all add: failing_model_def stub_model_def)

lemma mismatched_model_sel:
  "sp_vocab_size mismatched_model = 100" "sp_get_piece_size mismatched_model = 99"
  by (simp_all add: mismatched_model_def stub_model_def)

lemma stub_isfile: "isfile (stub_env m) ''tokenizer.model''"
  by (simp add: stub_env_def)

lemma stub_load: "load_model (stub_env m) p = Inr m"
  by (simp add: stub_env_def)

lemma stub_Tokenizer:
  "sp_vocab_size m = sp_get_piece_size m \<Longrightarrow>
   fst (Tokenizer (stub_env m) (Some ''tokenizer.model'')) = Inr (constructed m)"
  by (simp add: Tokenizer_Some stub_env_def constructed_def)

lemma stub_model_Tokenizer:
  "fst (Tokenizer (stub_env stub_model) (Some ''tokenizer.model'')) = Inr (constructed stub_model)"
  by (rule stub_Tokenizer) (simp add: stub_model_sel)

subsection \<open>Neither operation assigns an attribute\<close>

lemma bind_frame:
  assumes "\<And>tk. fst (snd (m tk)) = tk" and "\<And>v tk. fst (snd (f v tk)) = tk"
  shows "fst (snd (bind m f tk)) = tk"
proof (cases "m tk")
  case (fields r tk1 ev1)
  with assms(1) [of tk] have tk1: "tk1 = tk" by simp
  show ?thesis
  proof (cases r)
    case (Inl e)
    with fields tk1 show ?thesis by (simp add: bind_def)
  next
    case (Inr v)
    with fields tk1 assms(2) [of v tk] show ?thesis
      by (auto simp: bind_def split: prod.splits)
  qed
qed

lemma try_except_Exception_frame:
  assumes "\<And>tk. fst (snd (body tk)) = tk" and "\<And>e tk. fst (snd (handler e tk)) = tk"
  shows "fst (snd (try_except_Exception body handler tk)) = tk"
proof (cases "body tk")
  case (fields r tk1 ev1)
  with assms(1) [of tk] have tk1: "tk1 = tk" by simp
  show ?thesis
  proof (cases r)
    case (Inr v)
    with fields tk1 show ?thesis by (simp add: try_except_Exception_def)
  next
    case (Inl e)
    with fields tk1 assms(2) [of e tk] show ?thesis
      by (auto simp: try_except_Exception_def split: prod.splits)
  qed
qed

lemma getattr_frame: "fst (snd (getattr name field tk)) = tk"
  by (simp add: getattr_def split: option.splits)

lemma ret_frame: "fst (snd (ret v tk)) = tk"
  by (simp add: ret_def)

lemma raise_frame: "fst (snd (raise e tk)) = tk"
  by (simp add: raise_def)

lemma call_frame: "fst (snd (call ev r tk)) = tk"
  by (simp add: call_def)

lemma py_assert_frame: "fst (snd (py_assert c msg tk)) = tk"
  by (simp add: py_assert_def ret_def raise_def)

lemmas frame_rules =
  bind_frame try_except_Exception_frame getattr_frame ret_frame raise_frame call_frame
  py_assert_frame

lemma handle_unknown_tokens_frame: "fst (snd (handle_unknown_tokens t tk)) = tk"
  by (induction t arbitrary: tk) (simp_all add: frame_rules)

section \<open>The claims\<close>

text \<open>
  A Ready tokenizer is an instance \<open>tk\<close> that construction from a path returned:
  \<open>fst (Tokenizer env (Some p)) = Inr tk\<close>, where \<open>load_model env p = Inr m\<close> names
  the model that was loaded. The error names of the specification stand for the
  exceptions the code raises: NotFound for \<^verbatim>\<open>FileNotFoundError\<close> (line 26),
  TypeMismatch for the \<^verbatim>\<open>AssertionError\<close> of line 53, EncodingFailure for the
  \<^verbatim>\<open>ValueError\<close> of line 57.
\<close>

subsection \<open>C1: the range of the IDs that Encode returns\<close>

text \<open>
  Claim C1 says that every ID in the sequence Encode returns lies in
  \<open>[0, vocabulary size)\<close>, the reserved IDs included. Only the raw IDs pass through the
  check of line 60; the unknown-token ID that replaces a raw ID, the BOS ID of line 63
  and the EOS ID of line 65 are taken from the model as they are. On the model whose
  reserved IDs are \<open>- 1\<close>, with vocabulary size 100: prepending BOS gives \<open>- 1\<close> at the
  front, appending EOS gives \<open>- 1\<close> at the end, and the raw ID 100 of \<^verbatim>\<open>"h?"\<close> is
  replaced with \<open>- 1\<close>.
\<close>

theorem encode_ids_in_vocabulary_counterexample:
  "fst (Tokenizer (stub_env disabled_ids_model) (Some ''tokenizer.model''))
     = Inr (constructed disabled_ids_model)
   \<and> fst (encode (PyStr ''hi'') True False (constructed disabled_ids_model))
       = Inr [- 1, 45, 46]
   \<and> fst (encode (PyStr ''hi'') False True (constructed disabled_ids_model))
       = Inr [45, 46, - 1]
   \<and> fst (encode (PyStr ''h?'') False False (constructed disabled_ids_model))
       = Inr [45, - 1]
   \<and> \<not> in_range (- 1) (sp_vocab_size disabled_ids_model)"
proof -
  have c: "fst (Tokenizer (stub_env disabled_ids_model) (Some ''tokenizer.model''))
             = Inr (constructed disabled_ids_model)"
    by (rule stub_Tokenizer) (simp add: disabled_ids_model_sel)
  show ?thesis
    by (simp add: c encode_constructed [OF c stub_load] disabled_ids_model_sel in_range_def)
qed

text \<open>
  Claim C1, amended. On a Ready tokenizer, when the model returns the raw sequence
  \<open>raw\<close> for \<open>s\<close>, Encode returns \<open>[BOS]? + clamped raw IDs + [EOS]?\<close>, where every
  raw ID outside \<open>[0, vocabulary size)\<close> is replaced with the unknown-token ID. Every ID
  of the result lies in \<open>[0, vocabulary size)\<close> provided the reserved IDs that the call
  puts into the result do: the unknown-token ID if some raw ID is out of range, the BOS
  ID if it is prepended, the EOS ID if it is appended.
\<close>

theorem encode_ids_in_vocabulary:
  assumes "fst (Tokenizer env (Some p)) = Inr tk" and "load_model env p = Inr m"
    and "sp_encode m (PyStr s) = Inr raw"
    and "(\<exists>token_id \<in> set raw. \<not> in_range token_id (sp_vocab_size m)) \<longrightarrow>
           in_range (sp_unk_id m) (sp_vocab_size m)"
    and "bos \<longrightarrow> in_range (sp_bos_id m) (sp_vocab_size m)"
    and "eos \<longrightarrow> in_range (sp_eos_id m) (sp_vocab_size m)"
  shows "\<exists>t. fst (encode (PyStr s) bos eos tk) = Inr t
           \<and> t = (if bos then [sp_bos_id m] else []) @
                 map (\<lambda>token_id. if in_range token_id (sp_vocab_size m) then token_id
                                  else sp_unk_id m) raw @
                 (if eos then [sp_eos_id m] else [])
           \<and> (\<forall>token_id \<in> set t. in_range token_id (sp_vocab_size m))"
  using assms(3-6) by (auto simp: encode_constructed [OF assms(1,2)])

theorem encode_ids_in_vocabulary_witness:
  "fst (Tokenizer (stub_env stub_model) (Some ''tokenizer.model'')) = Inr (constructed stub_model)
   \<and> sp_encode stub_model (PyStr ''h?'') = Inr [45, 100]
   \<and> fst (encode (PyStr ''h?'') True True (constructed stub_model)) = Inr [1, 45, 0, 2]
   \<and> in_range 1 100 \<and> in_range 45 100 \<and> in_range 0 100 \<and> in_range 2 100"
proof -
  note c = stub_model_Tokenizer
  have r: "sp_encode stub_model (PyStr ''h?'') = Inr [45, 100]"
    by (simp add: stub_model_sel)
  have u: "(\<exists>token_id \<in> set [45, 100]. \<not> in_range token_id (sp_vocab_size stub_model)) \<longrightarrow>
             in_range (sp_unk_id stub_model) (sp_vocab_size stub_model)"
    by (simp add: stub_model_sel in_range_def)
  have b: "True \<longrightarrow> in_range (sp_bos_id stub_model) (sp_vocab_size stub_model)"
    by (simp add: stub_model_sel in_range_def)
  have e: "True \<longrightarrow> in_range (sp_eos_id stub_model) (sp_vocab_size stub_model)"
    by (simp add: stub_model_sel in_range_def)
  show ?thesis
    using c r encode_ids_in_vocabulary [OF c stub_load r u b e]
    by (simp add: stub_model_sel in_range_def)
qed

subsection \<open>C2: the two flags\<close>

text \<open>
  Claim C2. On a Ready tokenizer, \<open>Encode(s, true, false)\<close> is \<open>[BOS]\<close> followed by
  \<open>Encode(s, false, false)\<close>, \<open>Encode(s, false, true)\<close> is \<open>Encode(s, false, false)\<close>
  followed by \<open>[EOS]\<close>, and \<open>Encode(s, true, true)\<close> is \<open>[BOS]\<close>, then
  \<open>Encode(s, false, false)\<close>, then \<open>[EOS]\<close>, with the BOS and EOS IDs of the model.
  When \<open>Encode(s, false, false)\<close> raises, the other three raise the same exception.
\<close>

theorem encode_bos_eos:
  assumes "fst (Tokenizer env (Some p)) = Inr tk" and "load_model env p = Inr m"
  shows "fst (encode (PyStr s) True False tk)
           = map_sum id (\<lambda>t. [sp_bos_id m] @ t) (fst (encode (PyStr s) False False tk))
       \<and> fst (encode (PyStr s) False True tk)
           = map_sum id (\<lambda>t. t @ [sp_eos_id m]) (fst (encode (PyStr s) False False tk))
       \<and> fst (encode (PyStr s) True True tk)
           = map_sum id (\<lambda>t. [sp_bos_id m] @ t @ [sp_eos_id m])
               (fst (encode (PyStr s) False False tk))"
  by (simp add: encode_constructed [OF assms] split: sum.splits)

theorem encode_bos_eos_witness:
  "fst (Tokenizer (stub_env stub_model) (Some ''tokenizer.model'')) = Inr (constructed stub_model)
   \<and> fst (encode (PyStr ''hi'') False False (constructed stub_model)) = Inr [45, 46]
   \<and> fst (encode (PyStr ''hi'') True False (constructed stub_model)) = Inr [1, 45, 46]
   \<and> fst (encode (PyStr ''hi'') False True (constructed stub_model)) = Inr [45, 46, 2]
   \<and> fst (encode (PyStr ''hi'') True True (constructed stub_model)) = Inr [1, 45, 46, 2]"
proof -
  note c = stub_model_Tokenizer
  have r: "fst (encode (PyStr ''hi'') False False (constructed stub_model)) = Inr [45, 46]"
    by (simp add: encode_constructed [OF c stub_load] stub_model_sel in_range_def)
  show ?thesis
    using c encode_bos_eos [OF c stub_load, of "''hi''"]
    by (simp add: r stub_model_sel)
qed

subsection \<open>C3: a failure of the model during encoding is wrapped\<close>

text \<open>
  Claim C3. When the encoding procedure of the model raises an error \<open>e\<close> (an instance
  of \<^verbatim>\<open>Exception\<close>, which is what line 56 catches), Encode on a Ready tokenizer raises
  the \<^verbatim>\<open>ValueError\<close> of line 57 instead: its message ends with the text of \<open>e\<close>, and
  \<open>e\<close> is kept as its context. What the caller receives is never \<open>e\<close> itself.
\<close>

theorem encode_wraps_model_error:
  assumes "fst (Tokenizer env (Some p)) = Inr tk" and "load_model env p = Inr m"
    and "sp_encode m (PyStr s) = Inl e" and "is_Exception e"
  shows "fst (encode (PyStr s) bos eos tk)
           = Inl (PyExc ValueError (''Error during tokenization: '' @ message e) (Some e))
       \<and> fst (encode (PyStr s) bos eos tk) \<noteq> Inl e"
  using assms(3,4) by (simp add: encode_constructed [OF assms(1,2)] context_neq)

theorem encode_wraps_model_error_witness:
  "fst (Tokenizer (stub_env stub_model) (Some ''tokenizer.model'')) = Inr (constructed stub_model)
   \<and> sp_encode stub_model (PyStr ''!'')
       = Inl (PyExc (OtherException ''RuntimeError'') ''unsupported input'' None)
   \<and> fst (encode (PyStr ''!'') True True (constructed stub_model))
       = Inl (PyExc ValueError ''Error during tokenization: unsupported input''
                (Some (PyExc (OtherException ''RuntimeError'') ''unsupported input'' None)))"
proof -
  note c = stub_model_Tokenizer
  have r: "sp_encode stub_model (PyStr ''!'')
             = Inl (PyExc (OtherException ''RuntimeError'') ''unsupported input'' None)"
    by (simp add: stub_model_sel)
  have x: "is_Exception (PyExc (OtherException ''RuntimeError'') ''unsupported input'' None)"
    by simp
  show ?thesis
    using c r encode_wraps_model_error [OF c stub_load r x, of True True] by simp
qed

subsection \<open>C4: Decode delegates\<close>

text \<open>
  Claim C4. On a Ready tokenizer, Decode makes one call to the decoding procedure of
  the model and its outcome is the outcome of that call: the text unchanged when the
  model returns one, the model's own exception, not wrapped, when the model raises.
\<close>

theorem decode_delegates:
  assumes "fst (Tokenizer env (Some p)) = Inr tk" and "load_model env p = Inr m"
  shows "decode t tk = (sp_decode m t, tk, [SpDecode t])"
  using Tokenizer_ready(1) [OF assms] by (simp add: decode_apply)

theorem decode_delegates_witness:
  "fst (Tokenizer (stub_env stub_model) (Some ''tokenizer.model'')) = Inr (constructed stub_model)
   \<and> fst (decode [45, 46] (constructed stub_model)) = Inr ''hi''
   \<and> fst (decode [100] (constructed stub_model))
       = Inl (PyExc (OtherException ''IndexError'') ''piece id is out of range.'' None)"
proof -
  note c = stub_model_Tokenizer
  show ?thesis
    using c decode_delegates [OF c stub_load, of "[45, 46]"]
      decode_delegates [OF c stub_load, of "[100]"]
    by (simp add: stub_model_sel)
qed

subsection \<open>C5: a non-text argument\<close>

text \<open>
  Claim C5. For every argument that is not a \<^verbatim>\<open>str\<close>, Encode raises the
  \<^verbatim>\<open>AssertionError\<close> of line 53, whatever the instance and the flags, and has made no
  call into the model: the list of events is empty.
\<close>

theorem encode_rejects_non_text:
  assumes "\<not> isinstance_str v"
  shows "encode v bos eos tk
           = (Inl (PyExc AssertionError ''Input 's' must be a string'' None), tk, [])"
  using assms by (rule encode_not_str)

theorem encode_rejects_non_text_witness:
  "\<not> isinstance_str (PyInt 3)
   \<and> encode (PyInt 3) False False (constructed stub_model)
       = (Inl (PyExc AssertionError ''Input 's' must be a string'' None),
          constructed stub_model, [])"
proof -
  have h: "\<not> isinstance_str (PyInt 3)" by simp
  show ?thesis
    using h encode_rejects_non_text [OF h, of False False "constructed stub_model"] by simp
qed

subsection \<open>C6: construction from a path that is not a file\<close>

text \<open>
  Claim C6. When the path is not an existing regular file, \<^verbatim>\<open>__init__\<close> raises
  \<^verbatim>\<open>FileNotFoundError\<close> with a message that ends with the path, before it has assigned
  any attribute or called the loader: the instance is as it was and no event occurred.
  The expression \<^verbatim>\<open>Tokenizer(path)\<close> gives the caller the exception and no instance.
\<close>

theorem construction_not_found:
  assumes "\<not> isfile env p"
  shows "init env (Some p) tk
           = (Inl (PyExc FileNotFoundError (''Model file not found: '' @ p) None), tk, [])
       \<and> Tokenizer env (Some p)
           = (Inl (PyExc FileNotFoundError (''Model file not found: '' @ p) None), [])"
  using assms by (simp add: Tokenizer_def init_Some)

theorem construction_not_found_witness:
  "\<not> isfile (stub_env stub_model) ''missing.model''
   \<and> init (stub_env stub_model) (Some ''missing.model'') new_instance
       = (Inl (PyExc FileNotFoundError ''Model file not found: missing.model'' None),
          new_instance, [])
   \<and> Tokenizer (stub_env stub_model) (Some ''missing.model'')
       = (Inl (PyExc FileNotFoundError ''Model file not found: missing.model'' None), [])"
proof -
  have h: "\<not> isfile (stub_env stub_model) ''missing.model''"
    by (simp add: stub_env_def)
  show ?thesis
    using h construction_not_found [OF h, of new_instance] by simp
qed

subsection \<open>C7: an instance constructed without a path\<close>

text \<open>
  Claim C7 says that Encode and Decode on an instance constructed without a path fail
  with a NotInitialized error. The class has no such error. Reading the attribute
  \<^verbatim>\<open>sp_model\<close>, which was never assigned, raises \<^verbatim>\<open>AttributeError\<close>; in Encode that
  happens inside the \<^verbatim>\<open>try\<close> of line 54, so the caller receives the \<^verbatim>\<open>ValueError\<close> of
  line 57, the very exception a Ready tokenizer raises when its model fails with that
  error; and a non-text argument is rejected by line 53 before the attribute is read.
\<close>

theorem uninitialized_error_counterexample:
  "fst (Tokenizer (stub_env failing_model) None) = Inr new_instance
   \<and> fst (encode (PyStr ''hi'') False False new_instance)
       = Inl (PyExc ValueError
                (''Error during tokenization: '' @ message (no_attribute ''sp_model''))
                (Some (no_attribute ''sp_model'')))
   \<and> fst (Tokenizer (stub_env failing_model) (Some ''tokenizer.model''))
       = Inr (constructed failing_model)
   \<and> fst (encode (PyStr ''hi'') False False (constructed failing_model))
       = fst (encode (PyStr ''hi'') False False new_instance)
   \<and> fst (encode (PyInt 3) False False new_instance)
       = Inl (PyExc AssertionError ''Input 's' must be a string'' None)"
proof -
  have c: "fst (Tokenizer (stub_env failing_model) (Some ''tokenizer.model''))
             = Inr (constructed failing_model)"
    by (rule stub_Tokenizer) (simp add: failing_model_sel)
  have "is_Exception (no_attribute ''sp_model'')"
    by (simp add: no_attribute_def)
  then show ?thesis
    by (simp add: c Tokenizer_None encode_new_instance encode_not_str
          encode_constructed [OF c stub_load] failing_model_sel)
qed

text \<open>
  Claim C7, amended. On an instance constructed without a path every call of Encode
  and of Decode fails, without a call into a model and without touching the instance:
  Encode with the \<^verbatim>\<open>AssertionError\<close> of line 53 on a non-text argument and otherwise
  with the \<^verbatim>\<open>ValueError\<close> of line 57, whose context is the \<^verbatim>\<open>AttributeError\<close> for the
  missing \<^verbatim>\<open>sp_model\<close>; Decode with that \<^verbatim>\<open>AttributeError\<close> itself.
\<close>

theorem uninitialized_operations_fail:
  assumes "fst (Tokenizer env None) = Inr tk"
  shows "encode v bos eos tk
           = (Inl (if isinstance_str v
                   then PyExc ValueError
                          (''Error during tokenization: '' @ message (no_attribute ''sp_model''))
                          (Some (no_attribute ''sp_model''))
                   else PyExc AssertionError ''Input 's' must be a string'' None), tk, [])
       \<and> decode t tk = (Inl (no_attribute ''sp_model''), tk, [])"
proof -
  have tk: "tk = new_instance"
    using assms by (simp add: Tokenizer_None)
  have d: "decode t new_instance = (Inl (no_attribute ''sp_model''), new_instance, [])"
    by (simp add: decode_apply) (simp add: new_instance_def)
  show ?thesis
  proof (cases "isinstance_str v")
    case True
    then obtain s where "v = PyStr s" by (cases v) simp_all
    then show ?thesis
      by (simp add: tk encode_new_instance d)
  next
    case False
    then show ?thesis
      by (simp add: tk encode_not_str d)
  qed
qed

theorem uninitialized_operations_fail_witness:
  "fst (Tokenizer (stub_env stub_model) None) = Inr new_instance
   \<and> isl (fst (encode (PyStr ''hi'') True True new_instance))
   \<and> isl (fst (encode PyNone True True new_instance))
   \<and> fst (decode [45, 46] new_instance) = Inl (no_attribute ''sp_model'')"
proof -
  have h: "fst (Tokenizer (stub_env stub_model) None) = Inr new_instance"
    by (simp add: Tokenizer_None)
  show ?thesis
    using h uninitialized_operations_fail [OF h, of "PyStr ''hi''" True True "[45, 46]"]
      uninitialized_operations_fail [OF h, of PyNone True True "[45, 46]"]
    by simp
qed

subsection \<open>C8: the vocabulary size recorded at construction\<close>

text \<open>
  Claim C8. After a successful construction from a path the recorded vocabulary size
  \<^verbatim>\<open>n_words\<close> is the piece count the model reports, and the two numbers of the model
  agree. When the path is a file that loads as \<open>m\<close>, construction succeeds exactly
  when they agree: a mismatch is the \<^verbatim>\<open>AssertionError\<close> of line 39 and the caller gets
  no instance, and when they agree the assertion does not fail.
\<close>

theorem construction_vocabulary_size:
  assumes "load_model env p = Inr m"
  shows "(fst (Tokenizer env (Some p)) = Inr tk \<longrightarrow>
            n_words tk = Some (sp_get_piece_size m) \<and> sp_vocab_size m = sp_get_piece_size m)
       \<and> (isfile env p \<longrightarrow>
            fst (Tokenizer env (Some p)) =
              (if sp_vocab_size m = sp_get_piece_size m
               then Inr \<lparr>sp_model = Some m, n_words = Some (sp_get_piece_size m),
                         bos_id = Some (sp_bos_id m), eos_id = Some (sp_eos_id m),
                         pad_id = Some (sp_pad_id m), unk_id = Some (sp_unk_id m)\<rparr>
               else Inl (PyExc AssertionError [] None)))"
  using assms by (auto simp: Tokenizer_Some split: if_splits)

theorem construction_vocabulary_size_witness:
  "fst (Tokenizer (stub_env stub_model) (Some ''tokenizer.model'')) = Inr (constructed stub_model)
   \<and> n_words (constructed stub_model) = Some (sp_get_piece_size stub_model)
   \<and> fst (Tokenizer (stub_env mismatched_model) (Some ''tokenizer.model''))
       = Inl (PyExc AssertionError [] None)"
  using
    construction_vocabulary_size [OF stub_load, of stub_model "''tokenizer.model''"
      "constructed stub_model"]
    construction_vocabulary_size [OF stub_load, of mismatched_model "''tokenizer.model''"
      "constructed stub_model"]
  by (simp add: stub_isfile mismatched_model_sel stub_model_sel constructed_def)

subsection \<open>C9: Encode and Decode leave the instance as it was\<close>

text \<open>
  Claim C9. Whatever the instance, the arguments and the outcome, the instance after a
  call of Encode or of Decode is the instance before it: the model handle, the
  vocabulary size and the four reserved IDs are the same, since neither method body
  assigns an attribute.
\<close>

theorem operations_leave_instance_unchanged:
  "fst (snd (encode v bos eos tk)) = tk \<and> fst (snd (decode t tk)) = tk"
proof
  show "fst (snd (decode t tk)) = tk"
    by (simp add: decode_def frame_rules)
  show "fst (snd (encode v bos eos tk)) = tk"
    by (simp add: encode_def frame_rules handle_unknown_tokens_frame)
qed

subsection \<open>C10: the check of line 60 keeps length and positions\<close>

text \<open>
  Claim C10. On a Ready tokenizer, when the model returns the raw sequence \<open>raw\<close> for
  \<open>s\<close>, \<open>Encode(s, false, false)\<close> returns a sequence of the same length whose ID at
  each position is the raw ID at that position when it lies in
  \<open>[0, vocabulary size)\<close> and the unknown-token ID otherwise.
\<close>

theorem clamp_preserves_positions:
  assumes "fst (Tokenizer env (Some p)) = Inr tk" and "load_model env p = Inr m"
    and "sp_encode m (PyStr s) = Inr raw"
  shows "\<exists>t. fst (encode (PyStr s) False False tk) = Inr t
           \<and> length t = length raw
           \<and> (\<forall>i < length raw.
                 t ! i = (if in_range (raw ! i) (sp_vocab_size m) then raw ! i
                          else sp_unk_id m))"
  using assms(3) by (simp add: encode_constructed [OF assms(1,2)])

theorem clamp_preserves_positions_witness:
  "fst (Tokenizer (stub_env stub_model) (Some ''tokenizer.model'')) = Inr (constructed stub_model)
   \<and> sp_encode stub_model (PyStr ''h?'') = Inr [45, 100]
   \<and> fst (encode (PyStr ''h?'') False False (constructed stub_model)) = Inr [45, 0]"
proof -
  note c = stub_model_Tokenizer
  have r: "sp_encode stub_model (PyStr ''h?'') = Inr [45, 100]"
    by (simp add: stub_model_sel)
  obtain t where t: "fst (encode (PyStr ''h?'') False False (constructed stub_model)) = Inr t"
    "length t = 2"
    "\<forall>i < 2. t ! i = (if in_range ([45, 100] ! i) 100 then [45, 100] ! i else 0)"
    using clamp_preserves_positions [OF c stub_load r] by (auto simp: stub_model_sel)
  from t(3) have "t ! 0 = 45" "t ! 1 = 0"
    by (simp_all add: in_range_def)
  with t(2) have "t = [45, 0]"
    by (cases t; cases "tl t") auto
  with c r t(1) show ?thesis by simp
qed

end
